theory Spec2Isabelle
  imports Complex_Main
begin

section \<open>The GeoProfile handler of main.py\<close>

text \<open>
  The program is one HTTP handler, \<open>process_linestring\<close>, and five query functions that
  each open a connection, execute one SQL statement on a PostGIS database and return
  its rows. The model has three layers:
  \<^item> the Python values the handler receives and the operations it applies to them
    (subscripting, iteration, formatting into an f-string, \<open>int()\<close>, float division);
  \<^item> the database: its tables and spatial functions are parameters (a record
    \<open>postgis\<close>); the SQL text of the length, hydrography and land-cover percentage
    statements is translated clause by clause, the elevation and land-cover segment
    statements are taken as the rows they return;
  \<^item> the connections: a session state that numbers the connections and logs each
    connect, execute and close, threaded through the handler.
\<close>

subsection \<open>Python values and errors\<close>

text \<open>
  The exceptions the handler can raise. \<open>DatabaseError\<close> stands for every
  \<open>psycopg2.Error\<close>, \<open>JSONDecodeError\<close> for what \<open>json.loads\<close> raises.
\<close>

datatype py_error =
  KeyError | IndexError | TypeError | ZeroDivisionError | JSONDecodeError | DatabaseError

text \<open>
  What \<open>json.loads\<close> and \<open>request.json()\<close> return. A JSON number without fraction or
  exponent is a Python int, any other a float; the floats of a request are only ever
  formatted, so their type is a parameter \<open>'f\<close>. An object is the list of its items in
  order, its keys distinct as in a dict.
\<close>

datatype 'f json =
  JNull | JBool bool | JInt int | JFloat 'f | JStr string
  | JArr "'f json list" | JObj "(string \<times> 'f json) list"

text \<open>
  The Python runtime the handler relies on, taken as parameters where this development
  does not define it: \<open>repr\<close> of a float and of a str, \<open>json.loads\<close>, and the rounding of
  an exact quotient or product to the nearest double (\<open>rnd\<close>), through which the two
  float operations of the handler go.
\<close>

record 'f python =
  float_repr :: "'f \<Rightarrow> string"
  str_repr :: "string \<Rightarrow> string"
  json_loads :: "string \<Rightarrow> py_error + 'f json"
  rnd :: "real \<Rightarrow> real"

text \<open>\<open>str\<close> of an int: decimal digits, with a minus sign below zero.\<close>

fun digits :: "nat \<Rightarrow> string" where
  "digits n =
     (if n < 10 then [''0123456789'' ! n]
      else digits (n div 10) @ [''0123456789'' ! (n mod 10)])"

declare digits.simps [simp del]

definition str_int :: "int \<Rightarrow> string" where
  "str_int i = (if i < 0 then CHR ''-'' # digits (nat (- i)) else digits (nat i))"

text \<open>\<open>', '.join\<close> and friends: the separator between consecutive items.\<close>

fun join :: "string \<Rightarrow> string list \<Rightarrow> string" where
  "join sep [] = []"
| "join sep [x] = x"
| "join sep (x # y # ys) = x @ sep @ join sep (y # ys)"

text \<open>
  \<open>repr\<close> of a value, which \<open>str\<close> of a list or of a dict applies to its members.
\<close>

fun py_repr :: "'f python \<Rightarrow> 'f json \<Rightarrow> string" where
  "py_repr py JNull = ''None''"
| "py_repr py (JBool b) = (if b then ''True'' else ''False'')"
| "py_repr py (JInt i) = str_int i"
| "py_repr py (JFloat x) = float_repr py x"
| "py_repr py (JStr s) = str_repr py s"
| "py_repr py (JArr xs) = ''['' @ join '', '' (map (py_repr py) xs) @ '']''"
| "py_repr py (JObj kvs) =
     ''{'' @ join '', '' (map (\<lambda>kv. str_repr py (fst kv) @ '': '' @ py_repr py (snd kv)) kvs)
       @ ''}''"

text \<open>
  A replacement field \<open>{v}\<close> of an f-string is \<open>format(v, '')\<close>, which is \<open>str(v)\<close>: the
  text itself for a str, \<open>repr\<close> for every other value here.
\<close>

definition py_format :: "'f python \<Rightarrow> 'f json \<Rightarrow> string" where
  "py_format py v = (case v of JStr s \<Rightarrow> s | _ \<Rightarrow> py_repr py v)"

text \<open>\<open>v[k]\<close> with a str key: only a dict has one; a missing key raises KeyError.\<close>

definition getitem_key :: "'f json \<Rightarrow> string \<Rightarrow> py_error + 'f json" where
  "getitem_key v k =
     (case v of
        JObj kvs \<Rightarrow> (case map_of kvs k of None \<Rightarrow> Inl KeyError | Some x \<Rightarrow> Inr x)
      | _ \<Rightarrow> Inl TypeError)"

text \<open>
  \<open>v[i]\<close> with the index 0 or 1: a list or a str raises IndexError when too short, a
  dict has only str keys and raises KeyError, every other value is not subscriptable.
\<close>

definition getitem_index :: "'f json \<Rightarrow> nat \<Rightarrow> py_error + 'f json" where
  "getitem_index v i =
     (case v of
        JArr xs \<Rightarrow> (if i < length xs then Inr (xs ! i) else Inl IndexError)
      | JStr s \<Rightarrow> (if i < length s then Inr (JStr [s ! i]) else Inl IndexError)
      | JObj kvs \<Rightarrow> Inl KeyError
      | _ \<Rightarrow> Inl TypeError)"

text \<open>
  \<open>for x in v\<close>: the members of a list, the characters of a str, the keys of a dict;
  every other value is not iterable.
\<close>

definition py_iter :: "'f json \<Rightarrow> py_error + 'f json list" where
  "py_iter v =
     (case v of
        JArr xs \<Rightarrow> Inr xs
      | JStr s \<Rightarrow> Inr (map (\<lambda>c. JStr [c]) s)
      | JObj kvs \<Rightarrow> Inr (map (\<lambda>kv. JStr (fst kv)) kvs)
      | _ \<Rightarrow> Inl TypeError)"

text \<open>
  A comprehension whose body can raise: the items in order, or the first error.
\<close>

fun collect :: "('e + 'a) list \<Rightarrow> 'e + 'a list" where
  "collect [] = Inr []"
| "collect (Inl e # rs) = Inl e"
| "collect (Inr x # rs) = (case collect rs of Inl e \<Rightarrow> Inl e | Inr xs \<Rightarrow> Inr (x # xs))"

subsection \<open>The WKT line of a request\<close>

text \<open>
  \<^verbatim>\<open>f'{coord[0]} {coord[1]}'\<close>: \<open>coord[0]\<close> is read first, then \<open>coord[1]\<close>.
\<close>

definition format_coord :: "'f python \<Rightarrow> 'f json \<Rightarrow> py_error + string" where
  "format_coord py coord =
     (case getitem_index coord 0 of
        Inl e \<Rightarrow> Inl e
      | Inr x \<Rightarrow>
          (case getitem_index coord 1 of
             Inl e \<Rightarrow> Inl e
           | Inr y \<Rightarrow> Inr (py_format py x @ '' '' @ py_format py y)))"

text \<open>
  \<^verbatim>\<open>wkt = f"LINESTRING({', '.join(f'{coord[0]} {coord[1]}' for coord in data['coords'])})"\<close>
\<close>

definition build_wkt :: "'f python \<Rightarrow> 'f json \<Rightarrow> py_error + string" where
  "build_wkt py data =
     (case getitem_key data ''coords'' of
        Inl e \<Rightarrow> Inl e
      | Inr coords \<Rightarrow>
          (case py_iter coords of
             Inl e \<Rightarrow> Inl e
           | Inr cs \<Rightarrow>
               (case collect (map (format_coord py) cs) of
                  Inl e \<Rightarrow> Inl e
                | Inr parts \<Rightarrow> Inr (''LINESTRING('' @ join '', '' parts @ '')''))))"

subsection \<open>The database\<close>

text \<open>
  The cast \<open>::INT\<close> of a double precision value: to the nearest integer, a tie to the
  even one, and an error outside the range of a four-byte integer.
\<close>

definition round_half_even :: "real \<Rightarrow> int" where
  "round_half_even x =
     (let f = \<lfloor>x\<rfloor>; d = x - of_int f
      in if d < 1 / 2 then f else if 1 / 2 < d then f + 1 else if even f then f else f + 1)"

definition sql_int :: "real \<Rightarrow> py_error + int" where
  "sql_int x =
     (let r = round_half_even x
      in if - 2147483648 \<le> r \<and> r \<le> 2147483647 then Inr r else Inl DatabaseError)"

text \<open>
  The database the statements run on. \<open>'g\<close> is the type of geometries, \<open>'c\<close> and \<open>'d\<close>
  those of the columns \<open>CODE_CLC\<close> and \<open>DESCRIPTION_CLC\<close>. The spatial functions are
  PostGIS's and are parameters; the double precision values they return are reals, and
  the database's arithmetic on them rounds each exact quotient, product and sum to a
  double precision value, which is the parameter \<open>float8\<close>. The tables are lists of rows:
  \<open>GEO_COURS_EAU\<close> with the columns (NOMENTITEH, CLASSE, GEOM), the first two nullable,
  and \<open>GEO_CLC_2018\<close> with (CODE_CLC, DESCRIPTION_CLC, GEOM). \<open>elevation_rows\<close> and
  \<open>clc_rows\<close> are what the statements of \<open>fetch_elevation_data\<close> and \<open>fetch_clc_data\<close>
  return for a line, or the error they raise. \<open>refuses\<close> tells whether the connection
  attempt with a given number fails.
\<close>

record ('g, 'c, 'd) postgis =
  refuses :: "nat \<Rightarrow> py_error option"
  float8 :: "real \<Rightarrow> real"
  st_geomfromtext :: "string \<Rightarrow> py_error + 'g"
  st_length :: "'g \<Rightarrow> real"
  st_crosses :: "'g \<Rightarrow> 'g \<Rightarrow> bool"
  st_intersects :: "'g \<Rightarrow> 'g \<Rightarrow> bool"
  st_intersection :: "'g \<Rightarrow> 'g \<Rightarrow> 'g"
  st_dump :: "'g \<Rightarrow> 'g list"
  st_linelocatepoint :: "'g \<Rightarrow> 'g \<Rightarrow> real"
  geo_cours_eau :: "(string option \<times> int option \<times> 'g) list"
  geo_clc_2018 :: "('c \<times> 'd \<times> 'g) list"
  elevation_rows :: "'g \<Rightarrow> py_error + (int option \<times> string) list"
  clc_rows :: "'g \<Rightarrow> py_error + ('c \<times> 'd \<times> int) list"

text \<open>
  The statement of \<open>calculate_linestring_length\<close>, one row with one column:
  \<^verbatim>\<open>SELECT public.ST_LENGTH (public.ST_GEOMFROMTEXT (%s::text, 3857));\<close>
  Here and below the argument \<open>line\<close> is the value of \<open>ST_GEOMFROMTEXT (%s, 3857)\<close>.
\<close>

definition length_sql :: "('g, 'c, 'd) postgis \<Rightarrow> 'g \<Rightarrow> py_error + real list list" where
  "length_sql pg line = Inr [[st_length pg line]]"

text \<open>
  The statement of \<open>fetch_hydrographic_info\<close>:
  \<^verbatim>\<open>SELECT C.NOMENTITEH, C.CLASSE,
         (ST_LINELOCATEPOINT (L.GEOM, (D).GEOM) * ST_LENGTH (L.GEOM))::INT AS DIST_M
  FROM GEO_COURS_EAU AS C
       JOIN TOPO_LINE AS L ON ST_CROSSES (C.GEOM, L.GEOM)
       CROSS JOIN LATERAL ST_DUMP (ST_INTERSECTION (C.GEOM, L.GEOM)) AS D
  WHERE C.CLASSE IN (1, 2, 3)
  ORDER BY DIST_M;\<close>
  A null CLASSE is in no list of values. The product is a double precision value. A
  cast that fails fails the statement.
\<close>

definition hydro_sql ::
  "('g, 'c, 'd) postgis \<Rightarrow> 'g \<Rightarrow> py_error + (string option \<times> int option \<times> int) list" where
  "hydro_sql pg line =
     (case collect
        [(case sql_int (float8 pg (st_linelocatepoint pg line d * st_length pg line)) of
            Inl e \<Rightarrow> Inl e
          | Inr dist_m \<Rightarrow> Inr (nomentiteh, classe, dist_m)).
         (nomentiteh, classe, geom) \<leftarrow> geo_cours_eau pg,
         st_crosses pg geom line,
         d \<leftarrow> st_dump pg (st_intersection pg geom line),
         classe \<in> {Some 1, Some 2, Some 3}]
      of
        Inl e \<Rightarrow> Inl e
      | Inr rows \<Rightarrow> Inr (sort_key (\<lambda>row. snd (snd row)) rows))"

text \<open>
  The statement of \<open>calculate_clc_percentage\<close>:
  \<^verbatim>\<open>SELECT C.CODE_CLC, C.DESCRIPTION_CLC,
         SUM(ST_LENGTH (ST_INTERSECTION (L.GEOM, C.GEOM)) / ST_LENGTH (L.GEOM) * 100)::INT
           AS LONGUEUR_PRCT
  FROM GEO_CLC_2018 AS C
       JOIN TOPO_LINE AS L ON ST_INTERSECTS (L.GEOM, C.GEOM)
  GROUP BY C.CODE_CLC, C.DESCRIPTION_CLC
  ORDER BY LONGUEUR_PRCT DESC\<close>
  \<open>clc_joined\<close> is the join, \<open>clc_share\<close> the summand of one joined row, \<open>clc_groups\<close>
  the keys of the groups. Dividing by a line length of zero fails the statement. The
  quotient and the product of a summand are double precision values, and so is every
  partial sum: \<open>SUM\<close> starts from the first summand of a group and adds the others one
  by one, here in the order of the table (a group is never empty).
\<close>

fun sql_sum :: "(real \<Rightarrow> real) \<Rightarrow> real list \<Rightarrow> real" where
  "sql_sum r [] = 0"
| "sql_sum r (x # xs) = foldl (\<lambda>a y. r (a + y)) x xs"

definition clc_joined :: "('g, 'c, 'd) postgis \<Rightarrow> 'g \<Rightarrow> ('c \<times> 'd \<times> 'g) list" where
  "clc_joined pg line =
     [(code_clc, description_clc, geom).
      (code_clc, description_clc, geom) \<leftarrow> geo_clc_2018 pg, st_intersects pg line geom]"

definition clc_share :: "('g, 'c, 'd) postgis \<Rightarrow> 'g \<Rightarrow> 'g \<Rightarrow> real" where
  "clc_share pg line geom =
     float8 pg (float8 pg (st_length pg (st_intersection pg line geom) / st_length pg line)
       * 100)"

definition clc_groups :: "('c \<times> 'd \<times> 'g) list \<Rightarrow> ('c \<times> 'd) list" where
  "clc_groups joined = remdups (map (\<lambda>row. (fst row, fst (snd row))) joined)"

definition clc_group_sum :: "('g, 'c, 'd) postgis \<Rightarrow> 'g \<Rightarrow> 'c \<times> 'd \<Rightarrow> real" where
  "clc_group_sum pg line k =
     sql_sum (float8 pg)
       [clc_share pg line geom.
        (code_clc, description_clc, geom) \<leftarrow> clc_joined pg line,
        (code_clc, description_clc) = k]"

definition clc_pct_sql ::
  "('g, 'c, 'd) postgis \<Rightarrow> 'g \<Rightarrow> py_error + ('c \<times> 'd \<times> int) list" where
  "clc_pct_sql pg line =
     (if clc_joined pg line \<noteq> [] \<and> st_length pg line = 0 then Inl DatabaseError
      else
        (case collect
           (map (\<lambda>k. case sql_int (clc_group_sum pg line k) of
                        Inl e \<Rightarrow> Inl e
                      | Inr longueur_prct \<Rightarrow> Inr (fst k, snd k, longueur_prct))
              (clc_groups (clc_joined pg line)))
         of
           Inl e \<Rightarrow> Inl e
         | Inr rows \<Rightarrow> Inr (rev (sort_key (\<lambda>row. snd (snd row)) rows))))"

subsection \<open>Connections and the query functions\<close>

text \<open>
  Every connection that \<open>psycopg2.connect\<close> establishes is a new one; the session
  numbers them in the order they are opened and logs, for each, that it was opened,
  which statement was executed on it, and that it was closed: the connection is local
  to the call of the query function that opened it, and when that call is left nothing
  holds the connection any more.
\<close>

datatype query = Q_length | Q_elevation | Q_hydro | Q_clc | Q_clc_pct

datatype event = Connect nat | Execute nat query | Close nat

record session =
  next_conn :: nat
  log :: "event list"

text \<open>
  The body the five query functions share:
  \<^verbatim>\<open>with psycopg2.connect(**DB_CONFIG) as conn:
      with conn.cursor() as cursor:
          cursor.execute(<statement>, (wkt,))
          return cursor.fetchall()\<close>
  When the connection is refused nothing else happens. Otherwise the statement runs on
  the new connection, and the blocks and the function are left whether it returned
  rows or raised; \<open>scoped\<close> is the session after that.
\<close>

definition scoped :: "query \<Rightarrow> session \<Rightarrow> session" where
  "scoped q s =
     (let conn = next_conn s
      in s\<lparr>next_conn := Suc conn,
           log := log s @ [Connect conn, Execute conn q, Close conn]\<rparr>)"

definition run_query ::
  "('g, 'c, 'd) postgis \<Rightarrow> query \<Rightarrow> ('g \<Rightarrow> py_error + 'r) \<Rightarrow> string \<Rightarrow> session
     \<Rightarrow> (py_error + 'r) \<times> session" where
  "run_query pg q sql wkt s =
     (case refuses pg (next_conn s) of
        Some e \<Rightarrow> (Inl e, s)
      | None \<Rightarrow>
          (case st_geomfromtext pg wkt of
             Inl e \<Rightarrow> (Inl e, scoped q s)
           | Inr line \<Rightarrow> (sql line, scoped q s)))"

definition fetch_elevation_data ::
  "('g, 'c, 'd) postgis \<Rightarrow> string \<Rightarrow> session
     \<Rightarrow> (py_error + (int option \<times> string) list) \<times> session" where
  "fetch_elevation_data pg wkt s = run_query pg Q_elevation (elevation_rows pg) wkt s"

text \<open>\<^verbatim>\<open>return cursor.fetchall()[0][0]\<close>\<close>

definition calculate_linestring_length ::
  "('g, 'c, 'd) postgis \<Rightarrow> string \<Rightarrow> session \<Rightarrow> (py_error + real) \<times> session" where
  "calculate_linestring_length pg wkt s =
     (case run_query pg Q_length (length_sql pg) wkt s of
        (Inl e, s') \<Rightarrow> (Inl e, s')
      | (Inr fetched, s') \<Rightarrow>
          (case fetched of
             [] \<Rightarrow> (Inl IndexError, s')
           | row # _ \<Rightarrow> (case row of [] \<Rightarrow> (Inl IndexError, s') | v # _ \<Rightarrow> (Inr v, s'))))"

definition fetch_hydrographic_info ::
  "('g, 'c, 'd) postgis \<Rightarrow> string \<Rightarrow> session
     \<Rightarrow> (py_error + (string option \<times> int option \<times> int) list) \<times> session" where
  "fetch_hydrographic_info pg wkt s = run_query pg Q_hydro (hydro_sql pg) wkt s"

definition fetch_clc_data ::
  "('g, 'c, 'd) postgis \<Rightarrow> string \<Rightarrow> session
     \<Rightarrow> (py_error + ('c \<times> 'd \<times> int) list) \<times> session" where
  "fetch_clc_data pg wkt s = run_query pg Q_clc (clc_rows pg) wkt s"

definition calculate_clc_percentage ::
  "('g, 'c, 'd) postgis \<Rightarrow> string \<Rightarrow> session
     \<Rightarrow> (py_error + ('c \<times> 'd \<times> int) list) \<times> session" where
  "calculate_clc_percentage pg wkt s = run_query pg Q_clc_pct (clc_pct_sql pg) wkt s"

subsection \<open>The handler\<close>

text \<open>
  \<^verbatim>\<open>[[point[0] if point[0] is not None else 0, point[1]] for point in fetch_elevation_data(wkt)]\<close>
\<close>

definition elevation_points :: "(int option \<times> string) list \<Rightarrow> (int \<times> string) list" where
  "elevation_points fetched =
     map (\<lambda>point. (case fst point of Some v \<Rightarrow> v | None \<Rightarrow> 0, snd point)) fetched"

text \<open>
  \<^verbatim>\<open>segment_length = total_length / len(elevation_points)\<close>: dividing a float by zero
  raises ZeroDivisionError; otherwise the quotient is rounded to a double.
\<close>

definition segment_length :: "'f python \<Rightarrow> real \<Rightarrow> nat \<Rightarrow> py_error + real" where
  "segment_length py total_length n =
     (if n = 0 then Inl ZeroDivisionError else Inr (rnd py (total_length / real n)))"

text \<open>\<open>int(x)\<close> of a float cuts the fraction off, towards zero.\<close>

definition py_int :: "real \<Rightarrow> int" where
  "py_int x = (if 0 \<le> x then \<lfloor>x\<rfloor> else \<lceil>x\<rceil>)"

record 'f profile_point =
  distance :: int
  elevation :: int
  geometry :: "'f json"

text \<open>
  One entry of \<open>geospatial_data\<close>:
  \<^verbatim>\<open>{"distance": int(segment_length * index),
   "elevation": point[0],
   "geometry": json.loads(point[1])["coordinates"]}\<close>
\<close>

definition geospatial_point ::
  "'f python \<Rightarrow> real \<Rightarrow> nat \<times> int \<times> string \<Rightarrow> py_error + 'f profile_point" where
  "geospatial_point py seg ip =
     (let index = fst ip; point = snd ip;
          d = py_int (rnd py (seg * real index))
      in case json_loads py (snd point) of
           Inl e \<Rightarrow> Inl e
         | Inr gj \<Rightarrow>
             (case getitem_key gj ''coordinates'' of
                Inl e \<Rightarrow> Inl e
              | Inr c \<Rightarrow> Inr \<lparr>distance = d, elevation = fst point, geometry = c\<rparr>))"

definition geospatial_data ::
  "'f python \<Rightarrow> real \<Rightarrow> (int \<times> string) list \<Rightarrow> py_error + 'f profile_point list" where
  "geospatial_data py seg points = collect (map (geospatial_point py seg) (enumerate 0 points))"

text \<open>
  The dict the handler returns; \<open>values_list\<close> is its key \<open>"values"\<close>.
\<close>

record ('f, 'c, 'd) response =
  values_list :: "'f profile_point list"
  hydro_info :: "(string option \<times> int option \<times> int) list"
  clc_info :: "('c \<times> 'd \<times> int) list"
  clc_pct_info :: "('c \<times> 'd \<times> int) list"

text \<open>
  \<open>process_linestring\<close>, from the decoded body of the request to the dict it returns
  or the exception it raises, with the session before and after. The statements run in
  the order of the source: length, elevation, then, while the dict is built,
  hydrography, land-cover segments and land-cover percentages.
\<close>

definition process_linestring ::
  "'f python \<Rightarrow> ('g, 'c, 'd) postgis \<Rightarrow> 'f json \<Rightarrow> session
     \<Rightarrow> (py_error + ('f, 'c, 'd) response) \<times> session" where
  "process_linestring py pg data s0 =
     (case build_wkt py data of
        Inl e \<Rightarrow> (Inl e, s0)
      | Inr wkt \<Rightarrow>
     (case calculate_linestring_length pg wkt s0 of
        (Inl e, s1) \<Rightarrow> (Inl e, s1)
      | (Inr total_length, s1) \<Rightarrow>
     (case fetch_elevation_data pg wkt s1 of
        (Inl e, s2) \<Rightarrow> (Inl e, s2)
      | (Inr fetched, s2) \<Rightarrow>
     (case segment_length py total_length (length (elevation_points fetched)) of
        Inl e \<Rightarrow> (Inl e, s2)
      | Inr seg \<Rightarrow>
     (case geospatial_data py seg (elevation_points fetched) of
        Inl e \<Rightarrow> (Inl e, s2)
      | Inr geo \<Rightarrow>
     (case fetch_hydrographic_info pg wkt s2 of
        (Inl e, s3) \<Rightarrow> (Inl e, s3)
      | (Inr hydro, s3) \<Rightarrow>
     (case fetch_clc_data pg wkt s3 of
        (Inl e, s4) \<Rightarrow> (Inl e, s4)
      | (Inr clc, s4) \<Rightarrow>
     (case calculate_clc_percentage pg wkt s4 of
        (Inl e, s5) \<Rightarrow> (Inl e, s5)
      | (Inr pct, s5) \<Rightarrow>
          (Inr \<lparr>values_list = geo, hydro_info = hydro, clc_info = clc, clc_pct_info = pct\<rparr>,
           s5)))))))))"

subsection \<open>A request on a small database\<close>

text \<open>
  A database in one dimension, on which the statements can be evaluated: the track
  runs along an axis from 0 to 10, a river crosses the axis at one abscissa, a
  land-cover parcel covers an interval of it. Three elevation samples come back for the
  track, the middle one without a value. The runtime rounds to quarters, the database
  to multiples of 1/1024, and \<open>json.loads\<close> knows the three GeoJSON texts of the
  samples.
\<close>

datatype example_geom = Track | River int | Parcel real real | Pt int | Seg real real

definition example_loads :: "string \<Rightarrow> py_error + int json" where
  \<open>example_loads s =
     (case map_of
        [(''{"type":"Point","coordinates":[0,0]}'',
            JObj [(''type'', JStr ''Point''), (''coordinates'', JArr [JInt 0, JInt 0])]),
         (''{"type":"Point","coordinates":[5,0]}'',
            JObj [(''type'', JStr ''Point''), (''coordinates'', JArr [JInt 5, JInt 0])]),
         (''{"type":"Point","coordinates":[10,0]}'',
            JObj [(''type'', JStr ''Point''), (''coordinates'', JArr [JInt 10, JInt 0])])] s
      of None \<Rightarrow> Inl JSONDecodeError | Some v \<Rightarrow> Inr v)\<close>

definition example_rnd :: "real \<Rightarrow> real" where
  "example_rnd x = real_of_int \<lfloor>x * 4 + 1 / 2\<rfloor> / 4"

definition example_py :: "int python" where
  "example_py =
     \<lparr>float_repr = (\<lambda>x. str_int x @ ''.0''),
      str_repr = (\<lambda>s. [CHR 0x27] @ s @ [CHR 0x27]),
      json_loads = example_loads,
      rnd = example_rnd\<rparr>"

definition example_float8 :: "real \<Rightarrow> real" where
  "example_float8 x = real_of_int \<lfloor>x * 1024 + 1 / 2\<rfloor> / 1024"

definition example_length :: "example_geom \<Rightarrow> real" where
  "example_length g = (case g of Track \<Rightarrow> 10 | Seg a b \<Rightarrow> b - a | _ \<Rightarrow> 0)"

definition example_intersection :: "example_geom \<Rightarrow> example_geom \<Rightarrow> example_geom" where
  "example_intersection a b =
     (case (a, b) of
        (River x, Track) \<Rightarrow> Pt x
      | (Track, Parcel l r) \<Rightarrow> Seg (max l 0) (min r 10)
      | _ \<Rightarrow> a)"

definition example_fetched :: "(int option \<times> string) list" where
  \<open>example_fetched =
     [(Some 120, ''{"type":"Point","coordinates":[0,0]}''),
      (None, ''{"type":"Point","coordinates":[5,0]}''),
      (Some 131, ''{"type":"Point","coordinates":[10,0]}'')]\<close>

definition example_clc :: "(string \<times> string \<times> int) list" where
  "example_clc =
     [(''311'', ''Forets de feuillus'', 3), (''211'', ''Terres arables'', 6),
      (''311'', ''Forets de feuillus'', 9), (''112'', ''Tissu urbain'', 10)]"

definition example_pg :: "(example_geom, string, string) postgis" where
  "example_pg =
     \<lparr>refuses = (\<lambda>n. None),
      float8 = example_float8,
      st_geomfromtext =
        (\<lambda>w. if w = ''LINESTRING(0 0, 10 0)'' then Inr Track else Inl DatabaseError),
      st_length = example_length,
      st_crosses = (\<lambda>a b. case (a, b) of (River x, Track) \<Rightarrow> 0 < x \<and> x < 10 | _ \<Rightarrow> False),
      st_intersects =
        (\<lambda>a b. case (a, b) of (Track, Parcel l r) \<Rightarrow> l < 10 \<and> 0 < r | _ \<Rightarrow> False),
      st_intersection = example_intersection,
      st_dump = (\<lambda>g. [g]),
      st_linelocatepoint =
        (\<lambda>a b. case (a, b) of (Track, Pt x) \<Rightarrow> real_of_int x / 10 | _ \<Rightarrow> 0),
      geo_cours_eau =
        [(Some ''la Loire'', Some 1, River 7), (None, Some 5, River 4),
         (Some ''le Cher'', Some 3, River 2), (Some ''la Seine'', Some 2, River 12),
         (Some ''le canal'', None, River 3)],
      geo_clc_2018 =
        [(''311'', ''Forets de feuillus'', Parcel (- 5) 3),
         (''211'', ''Terres arables'', Parcel 3 6),
         (''311'', ''Forets de feuillus'', Parcel 6 9),
         (''112'', ''Tissu urbain'', Parcel 9 20),
         (''523'', ''Mers et oceans'', Parcel 30 40)],
      elevation_rows = (\<lambda>g. case g of Track \<Rightarrow> Inr example_fetched | _ \<Rightarrow> Inl DatabaseError),
      clc_rows = (\<lambda>g. case g of Track \<Rightarrow> Inr example_clc | _ \<Rightarrow> Inl DatabaseError)\<rparr>"

definition example_data :: "int json" where
  "example_data = JObj [(''coords'', JArr [JArr [JInt 0, JInt 0], JArr [JInt 10, JInt 0]])]"

definition example_session :: session where
  "example_session = \<lparr>next_conn = 0, log = []\<rparr>"

definition example_response :: "(int, string, string) response" where
  "example_response =
     \<lparr>values_list =
        [\<lparr>distance = 0, elevation = 120, geometry = JArr [JInt 0, JInt 0]\<rparr>,
         \<lparr>distance = 3, elevation = 0, geometry = JArr [JInt 5, JInt 0]\<rparr>,
         \<lparr>distance = 6, elevation = 131, geometry = JArr [JInt 10, JInt 0]\<rparr>],
      hydro_info = [(Some ''le Cher'', Some 3, 2), (Some ''la Loire'', Some 1, 7)],
      clc_info = example_clc,
      clc_pct_info =
        [(''311'', ''Forets de feuillus'', 60), (''211'', ''Terres arables'', 30),
         (''112'', ''Tissu urbain'', 10)]\<rparr>"

definition example_log :: "event list" where
  "example_log =
     [Connect 0, Execute 0 Q_length, Close 0,
      Connect 1, Execute 1 Q_elevation, Close 1,
      Connect 2, Execute 2 Q_hydro, Close 2,
      Connect 3, Execute 3 Q_clc, Close 3,
      Connect 4, Execute 4 Q_clc_pct, Close 4]"


text \<open>
  The same database when the elevation statement finds no sample, a body with floats
  and a second key, and the body of \<open>example_data\<close> with further members in each entry.
\<close>

definition example_pg_no_samples :: "(example_geom, string, string) postgis" where
  "example_pg_no_samples = example_pg\<lparr>elevation_rows := (\<lambda>g. Inr [])\<rparr>"

definition example_data_floats :: "int json" where
  "example_data_floats =
     JObj [(''name'', JStr ''GR 20''),
           (''coords'', JArr [JArr [JFloat 2, JInt (- 3)], JArr [JInt 10, JInt 0],
                             JArr [JInt 7, JFloat 5]])]"

definition example_data_longer :: "int json" where
  "example_data_longer =
     JObj [(''coords'',
            JArr [JArr [JInt 0, JInt 0, JInt 1480], JArr [JInt 10, JInt 0, JStr ''col'', JNull]])]"









text \<open>
  Two entries of a \<open>coords\<close> list that are both lists, or both strings, of at least two
  members and have the same first and the same second member.
\<close>

fun same_first_two :: "'f json \<Rightarrow> 'f json \<Rightarrow> bool" where
  "same_first_two (JArr (x # y # xs)) (JArr (x' # y' # ys)) = (x = x' \<and> y = y')"
| "same_first_two (JStr (x # y # xs)) (JStr (x' # y' # ys)) = (x = x' \<and> y = y')"
| "same_first_two a b = False"

section \<open>Properties\<close>

subsection \<open>Comprehensions that can raise\<close>

lemma collect_Inr_length: "collect rs = Inr ys \<Longrightarrow> length ys = length rs"
  by (induction rs arbitrary: ys rule: collect.induct) (auto split: sum.splits)

lemma collect_Inr_nth: "collect rs = Inr ys \<Longrightarrow> i < length rs \<Longrightarrow> rs ! i = Inr (ys ! i)"
proof (induction rs arbitrary: ys i rule: collect.induct)
  case 1
  then show ?case by simp
next
  case (2 e rs)
  then show ?case by simp
next
  case (3 x rs)
  then obtain xs where xs: "collect rs = Inr xs" and ys: "ys = x # xs"
    by (auto split: sum.splits)
  show ?case
  proof (cases i)
    case 0
    then show ?thesis by (simp add: ys)
  next
    case (Suc j)
    with 3 xs ys show ?thesis by simp
  qed
qed

lemma collect_all_Inr: "collect (map Inr xs) = Inr xs"
  by (induction xs) auto

lemma collect_Inr_map: "collect rs = Inr ys \<Longrightarrow> rs = map Inr ys"
  by (induction rs arbitrary: ys rule: collect.induct) (auto split: sum.splits)

subsection \<open>What a returned response tells about the run\<close>

lemma run_query_Inr:
  assumes "run_query pg q sql wkt s = (Inr r, s')"
  shows "refuses pg (next_conn s) = None \<and> s' = scoped q s
    \<and> (\<exists>line. st_geomfromtext pg wkt = Inr line \<and> sql line = Inr r)"
  using assms by (auto simp: run_query_def split: option.splits sum.splits)

lemma calculate_linestring_length_Inr:
  assumes "calculate_linestring_length pg wkt s = (Inr v, s')"
  shows "refuses pg (next_conn s) = None \<and> s' = scoped Q_length s
    \<and> (\<exists>line. st_geomfromtext pg wkt = Inr line \<and> v = st_length pg line)"
proof -
  from assms obtain fetched where
    r: "run_query pg Q_length (length_sql pg) wkt s = (Inr fetched, s')"
    by (auto simp: calculate_linestring_length_def split: prod.splits sum.splits list.splits)
  from run_query_Inr [OF r] obtain line where
    l: "refuses pg (next_conn s) = None" "s' = scoped Q_length s"
       "st_geomfromtext pg wkt = Inr line" "fetched = [[st_length pg line]]"
    by (auto simp: length_sql_def)
  from assms r l show ?thesis
    by (simp add: calculate_linestring_length_def)
qed

lemma process_linestring_Inr:
  assumes "process_linestring py pg data s0 = (Inr resp, s')"
  obtains wkt line fetched seg where
    "build_wkt py data = Inr wkt"
    "st_geomfromtext pg wkt = Inr line"
    "elevation_rows pg line = Inr fetched"
    "fetched \<noteq> []"
    "seg = rnd py (st_length pg line / real (length fetched))"
    "geospatial_data py seg (elevation_points fetched) = Inr (values_list resp)"
    "hydro_sql pg line = Inr (hydro_info resp)"
    "clc_rows pg line = Inr (clc_info resp)"
    "clc_pct_sql pg line = Inr (clc_pct_info resp)"
    "s' = scoped Q_clc_pct (scoped Q_clc (scoped Q_hydro (scoped Q_elevation (scoped Q_length s0))))"
proof -
  from assms obtain wkt where w: "build_wkt py data = Inr wkt"
    by (auto simp: process_linestring_def split: sum.splits)
  from assms w obtain total s1 where
    q1: "calculate_linestring_length pg wkt s0 = (Inr total, s1)"
    by (auto simp: process_linestring_def split: sum.splits prod.splits)
  from assms w q1 obtain fetched s2 where
    q2: "fetch_elevation_data pg wkt s1 = (Inr fetched, s2)"
    by (auto simp: process_linestring_def split: sum.splits prod.splits)
  from assms w q1 q2 obtain seg where
    sg: "segment_length py total (length (elevation_points fetched)) = Inr seg"
    by (auto simp: process_linestring_def split: sum.splits prod.splits)
  from assms w q1 q2 sg obtain geo where
    g: "geospatial_data py seg (elevation_points fetched) = Inr geo"
    by (auto simp: process_linestring_def split: sum.splits prod.splits)
  from assms w q1 q2 sg g obtain hydro s3 where
    q3: "fetch_hydrographic_info pg wkt s2 = (Inr hydro, s3)"
    by (auto simp: process_linestring_def split: sum.splits prod.splits)
  from assms w q1 q2 sg g q3 obtain clc s4 where
    q4: "fetch_clc_data pg wkt s3 = (Inr clc, s4)"
    by (auto simp: process_linestring_def split: sum.splits prod.splits)
  from assms w q1 q2 sg g q3 q4 obtain pct s5 where
    q5: "calculate_clc_percentage pg wkt s4 = (Inr pct, s5)"
    by (auto simp: process_linestring_def split: sum.splits prod.splits)
  from assms w q1 q2 sg g q3 q4 q5 have
    r: "resp = \<lparr>values_list = geo, hydro_info = hydro, clc_info = clc, clc_pct_info = pct\<rparr>"
      and s: "s' = s5"
    by (auto simp: process_linestring_def)
  from calculate_linestring_length_Inr [OF q1] obtain line where
    l: "st_geomfromtext pg wkt = Inr line" "total = st_length pg line" "s1 = scoped Q_length s0"
    by auto
  from run_query_Inr [OF q2 [unfolded fetch_elevation_data_def]] l have
    e: "elevation_rows pg line = Inr fetched" "s2 = scoped Q_elevation s1"
    by auto
  from run_query_Inr [OF q3 [unfolded fetch_hydrographic_info_def]] l have
    h: "hydro_sql pg line = Inr hydro" "s3 = scoped Q_hydro s2"
    by auto
  from run_query_Inr [OF q4 [unfolded fetch_clc_data_def]] l have
    c: "clc_rows pg line = Inr clc" "s4 = scoped Q_clc s3"
    by auto
  from run_query_Inr [OF q5 [unfolded calculate_clc_percentage_def]] l have
    p: "clc_pct_sql pg line = Inr pct" "s5 = scoped Q_clc_pct s4"
    by auto
  from sg have ne: "fetched \<noteq> []" and sv: "seg = rnd py (st_length pg line / real (length fetched))"
    by (auto simp: segment_length_def elevation_points_def l split: if_splits)
  show thesis
    by (rule that [OF w l(1) e(1) ne sv]) (simp_all add: r s g h c p l e)
qed

lemma geospatial_data_Inr:
  assumes "geospatial_data py seg points = Inr vals"
  shows "length vals = length points"
    and "i < length points \<Longrightarrow> geospatial_point py seg (i, points ! i) = Inr (vals ! i)"
proof -
  let ?rs = "map (geospatial_point py seg) (enumerate 0 points)"
  from assms have c: "collect ?rs = Inr vals"
    by (simp add: geospatial_data_def)
  from collect_Inr_length [OF c] show "length vals = length points"
    by simp
  assume i: "i < length points"
  with collect_Inr_nth [OF c, of i] show "geospatial_point py seg (i, points ! i) = Inr (vals ! i)"
    by (simp add: nth_enumerate_eq)
qed

lemma geospatial_point_Inr:
  assumes "geospatial_point py seg (i, p) = Inr v"
  shows "distance v = py_int (rnd py (seg * real i))"
    and "elevation v = fst p"
    and "\<exists>gj. json_loads py (snd p) = Inr gj \<and> getitem_key gj ''coordinates'' = Inr (geometry v)"
  using assms by (auto simp: geospatial_point_def Let_def split: sum.splits)

lemma py_int_nonneg: "0 \<le> x \<Longrightarrow> py_int x = \<lfloor>x\<rfloor>"
  by (simp add: py_int_def)

lemma py_int_mono:
  assumes "x \<le> y"
  shows "py_int x \<le> py_int y"
proof (cases "0 \<le> x")
  case True
  with assms have "0 \<le> y" by simp
  with True assms show ?thesis by (simp add: py_int_def floor_mono)
next
  case False
  then have x: "\<lceil>x\<rceil> \<le> 0" by (simp add: ceiling_le_zero)
  show ?thesis
  proof (cases "0 \<le> y")
    case True
    then have "0 \<le> \<lfloor>y\<rfloor>" by simp
    with x have "\<lceil>x\<rceil> \<le> \<lfloor>y\<rfloor>" by (rule order_trans)
    with False True show ?thesis by (simp add: py_int_def)
  next
    case y: False
    with False assms show ?thesis by (simp add: py_int_def ceiling_mono)
  qed
qed

lemma response_values:
  assumes "process_linestring py pg data s0 = (Inr resp, s')"
    and "build_wkt py data = Inr wkt"
    and "st_geomfromtext pg wkt = Inr line"
    and "elevation_rows pg line = Inr fetched"
  shows "length (values_list resp) = length fetched"
    and "i < length fetched \<Longrightarrow>
      geospatial_point py (rnd py (st_length pg line / real (length fetched)))
        (i, elevation_points fetched ! i) = Inr (values_list resp ! i)"
proof -
  from assms(1) obtain wkt' line' fetched' seg where
    h: "build_wkt py data = Inr wkt'" "st_geomfromtext pg wkt' = Inr line'"
       "elevation_rows pg line' = Inr fetched'"
       "seg = rnd py (st_length pg line' / real (length fetched'))"
       "geospatial_data py seg (elevation_points fetched') = Inr (values_list resp)"
    by (rule process_linestring_Inr)
  from h assms have e: "wkt' = wkt" "line' = line" "fetched' = fetched"
    by simp_all
  from geospatial_data_Inr(1) [OF h(5)] show "length (values_list resp) = length fetched"
    by (simp add: e elevation_points_def)
  assume "i < length fetched"
  with geospatial_data_Inr(2) [OF h(5), of i] show
    "geospatial_point py (rnd py (st_length pg line / real (length fetched)))
        (i, elevation_points fetched ! i) = Inr (values_list resp ! i)"
    by (simp add: e h(4) elevation_points_def)
qed

subsection \<open>The request on the small database\<close>

lemma example_wkt: "build_wkt example_py example_data = Inr ''LINESTRING(0 0, 10 0)''"
  by (simp add: build_wkt_def example_data_def getitem_key_def py_iter_def format_coord_def
      getitem_index_def py_format_def str_int_def digits.simps)

lemma example_line: "st_geomfromtext example_pg ''LINESTRING(0 0, 10 0)'' = Inr Track"
  by (simp add: example_pg_def)

lemma example_refuses: "refuses example_pg n = None"
  by (simp add: example_pg_def)

lemma example_hydro:
  "hydro_sql example_pg Track = Inr (hydro_info example_response)"
  by (simp add: hydro_sql_def example_pg_def example_intersection_def example_length_def
      example_float8_def sql_int_def round_half_even_def example_response_def)

lemma example_casts:
  "sql_int (8525 / 256) = Inr 33" "sql_int (6825 / 256) = Inr 27"
  "sql_int (7675 / 256) = Inr 30" "sql_int (1275 / 128) = Inr 10"
  "sql_int (7675 / 128) = Inr 60" "sql_int (375 / 256) = Inr 1" "sql_int (3 / 2) = Inr 2"
  by (simp_all add: sql_int_def round_half_even_def)

lemma example_joined:
  "clc_joined example_pg Track =
     [(''311'', ''Forets de feuillus'', Parcel (- 5) 3),
      (''211'', ''Terres arables'', Parcel 3 6),
      (''311'', ''Forets de feuillus'', Parcel 6 9),
      (''112'', ''Tissu urbain'', Parcel 9 20)]"
  by (simp add: clc_joined_def example_pg_def)

lemma example_share:
  "clc_share example_pg Track (Parcel (- 5) 3) = 7675 / 256"
  "clc_share example_pg Track (Parcel 3 6) = 7675 / 256"
  "clc_share example_pg Track (Parcel 6 9) = 7675 / 256"
  "clc_share example_pg Track (Parcel 9 20) = 1275 / 128"
  by (simp_all add: clc_share_def example_pg_def example_intersection_def example_length_def
      example_float8_def)

lemma example_sums:
  "clc_group_sum example_pg Track (''311'', ''Forets de feuillus'') = 7675 / 128"
  "clc_group_sum example_pg Track (''211'', ''Terres arables'') = 7675 / 256"
  "clc_group_sum example_pg Track (''112'', ''Tissu urbain'') = 1275 / 128"
proof -
  have f: "float8 example_pg (7675 / 128) = 7675 / 128"
    by (simp add: example_pg_def example_float8_def)
  show "clc_group_sum example_pg Track (''311'', ''Forets de feuillus'') = 7675 / 128"
    "clc_group_sum example_pg Track (''211'', ''Terres arables'') = 7675 / 256"
    "clc_group_sum example_pg Track (''112'', ''Tissu urbain'') = 1275 / 128"
    by (simp_all add: clc_group_sum_def example_joined example_share f)
qed

lemma example_pct: "clc_pct_sql example_pg Track = Inr (clc_pct_info example_response)"
proof -
  have g: "clc_groups (clc_joined example_pg Track)
    = [(''211'', ''Terres arables''), (''311'', ''Forets de feuillus''),
       (''112'', ''Tissu urbain'')]"
    by (simp add: clc_groups_def example_joined)
  have n: "clc_joined example_pg Track \<noteq> []"
    by (simp add: example_joined)
  have t: "st_length example_pg Track \<noteq> 0"
    by (simp add: example_pg_def example_length_def)
  show ?thesis
    by (simp add: clc_pct_sql_def g n t example_sums example_casts example_response_def)
qed

lemma example_geo:
  "geospatial_data example_py (13 / 4) (elevation_points example_fetched)
     = Inr (values_list example_response)"
  by (simp add: geospatial_data_def geospatial_point_def example_py_def example_loads_def
      example_rnd_def py_int_def getitem_key_def enumerate_eq_zip upt_rec
      elevation_points_def example_fetched_def example_response_def)

lemma example_seg:
  "segment_length example_py 10 (length (elevation_points example_fetched)) = Inr (13 / 4)"
  by (simp add: segment_length_def elevation_points_def example_fetched_def example_py_def
      example_rnd_def)

lemma run_query_accepted:
  "refuses pg (next_conn s) = None \<Longrightarrow> st_geomfromtext pg wkt = Inr line
    \<Longrightarrow> run_query pg q sql wkt s = (sql line, scoped q s)"
  by (simp add: run_query_def)

lemma example_total: "st_length example_pg Track = 10"
  by (simp add: example_pg_def example_length_def)

lemma example_elevation: "elevation_rows example_pg Track = Inr example_fetched"
  by (simp add: example_pg_def)

lemma example_clc_rows: "clc_rows example_pg Track = Inr (clc_info example_response)"
  by (simp add: example_pg_def example_response_def)

lemma example_scoped:
  "scoped Q_clc_pct (scoped Q_clc (scoped Q_hydro (scoped Q_elevation
     (scoped Q_length example_session)))) = \<lparr>next_conn = 5, log = example_log\<rparr>"
  by (simp add: scoped_def example_session_def example_log_def)

lemma example_run:
  "process_linestring example_py example_pg example_data example_session
     = (Inr example_response, \<lparr>next_conn = 5, log = example_log\<rparr>)"
  by (simp add: process_linestring_def example_wkt calculate_linestring_length_def
      fetch_elevation_data_def fetch_hydrographic_info_def fetch_clc_data_def
      calculate_clc_percentage_def
      run_query_accepted [OF example_refuses example_line] length_sql_def
      example_total example_elevation example_seg example_geo example_hydro
      example_clc_rows example_pct example_scoped)

lemma example_rnd_nonneg: "0 \<le> x \<Longrightarrow> 0 \<le> rnd example_py x"
  by (simp add: example_py_def example_rnd_def)

lemma example_rnd_mono: "mono (rnd example_py)"
  by (auto simp: example_py_def example_rnd_def mono_def divide_right_mono floor_mono)

lemma example_rnd_zero: "rnd example_py 0 = 0"
  by (simp add: example_py_def example_rnd_def)

subsection \<open>The elevation profile\<close>

text \<open>
  C1. When the handler answers a request whose elevation statement returned the rows
  \<open>fetched\<close>, \<open>N\<close> of them, and whose line length is not negative, the response has \<open>N\<close>
  entries, and the distance of entry \<open>i\<close> is the floor of the float expression
  \<open>total_length / N * i\<close>, that is of the rounded product of the rounded quotient and
  \<open>i\<close>. Rounding to a double keeps a number that is not negative so.
\<close>

theorem distance_is_floor:
  assumes "process_linestring py pg data s0 = (Inr resp, s')"
    and "build_wkt py data = Inr wkt"
    and "st_geomfromtext pg wkt = Inr line"
    and "elevation_rows pg line = Inr fetched"
    and "0 \<le> st_length pg line"
    and "\<And>x. 0 \<le> x \<Longrightarrow> 0 \<le> rnd py x"
    and "i < length fetched"
  shows "length (values_list resp) = length fetched \<and>
    distance (values_list resp ! i)
      = \<lfloor>rnd py (rnd py (st_length pg line / real (length fetched)) * real i)\<rfloor>"
proof -
  let ?seg = "rnd py (st_length pg line / real (length fetched))"
  have d: "distance (values_list resp ! i) = py_int (rnd py (?seg * real i))"
    using response_values(2) [OF assms(1-4) assms(7)] by (rule geospatial_point_Inr(1))
  have "0 \<le> st_length pg line / real (length fetched)"
    using assms(5) by simp
  then have "0 \<le> ?seg"
    by (rule assms(6))
  then have "0 \<le> ?seg * real i"
    by simp
  then have "0 \<le> rnd py (?seg * real i)"
    by (rule assms(6))
  then have "py_int (rnd py (?seg * real i)) = \<lfloor>rnd py (?seg * real i)\<rfloor>"
    by (rule py_int_nonneg)
  with d response_values(1) [OF assms(1-4)] show ?thesis
    by simp
qed

theorem distance_is_floor_witness:
  "process_linestring example_py example_pg example_data example_session
     = (Inr example_response, \<lparr>next_conn = 5, log = example_log\<rparr>)
   \<and> elevation_rows example_pg Track = Inr example_fetched
   \<and> 0 \<le> st_length example_pg Track
   \<and> 2 < length example_fetched
   \<and> distance (values_list example_response ! 2)
      = \<lfloor>rnd example_py (rnd example_py (st_length example_pg Track / real (length example_fetched)) * real 2)\<rfloor>
   \<and> distance (values_list example_response ! 2) = 6"
proof -
  have n: "0 \<le> st_length example_pg Track" and i: "2 < length example_fetched"
    by (simp_all add: example_total example_fetched_def)
  from distance_is_floor [OF example_run example_wkt example_line example_elevation n
      example_rnd_nonneg i]
  show ?thesis
    by (simp add: example_run example_elevation n i) (simp add: example_response_def)
qed

text \<open>
  C4. In the response to such a request no sample is left out, and the elevation of
  entry \<open>i\<close> is 0 when the database returned null for sample \<open>i\<close> and the value it
  returned otherwise.
\<close>

theorem null_elevation_is_zero:
  assumes "process_linestring py pg data s0 = (Inr resp, s')"
    and "build_wkt py data = Inr wkt"
    and "st_geomfromtext pg wkt = Inr line"
    and "elevation_rows pg line = Inr fetched"
    and "i < length fetched"
  shows "length (values_list resp) = length fetched \<and>
    elevation (values_list resp ! i) = (case fst (fetched ! i) of None \<Rightarrow> 0 | Some v \<Rightarrow> v)"
proof -
  have "elevation (values_list resp ! i) = fst (elevation_points fetched ! i)"
    using response_values(2) [OF assms] by (rule geospatial_point_Inr(2))
  also have "\<dots> = (case fst (fetched ! i) of None \<Rightarrow> 0 | Some v \<Rightarrow> v)"
    using assms(5) by (simp add: elevation_points_def split: option.splits)
  finally show ?thesis
    using response_values(1) [OF assms(1-4)] by simp
qed

theorem null_elevation_is_zero_witness:
  "process_linestring example_py example_pg example_data example_session
     = (Inr example_response, \<lparr>next_conn = 5, log = example_log\<rparr>)
   \<and> elevation_rows example_pg Track = Inr example_fetched
   \<and> fst (example_fetched ! 1) = None
   \<and> length (values_list example_response) = length example_fetched
   \<and> elevation (values_list example_response ! 1) = 0"
proof -
  have i: "1 < length example_fetched" and n: "fst (example_fetched ! 1) = None"
    by (simp_all add: example_fetched_def)
  from null_elevation_is_zero [OF example_run example_wkt example_line example_elevation i] n
  show ?thesis
    by (simp add: example_run example_elevation)
qed

lemma getitem_key_Inr:
  assumes "getitem_key v k = Inr x"
  shows "\<exists>kvs. v = JObj kvs \<and> map_of kvs k = Some x"
  using assms by (cases v) (auto simp: getitem_key_def split: option.splits)

text \<open>
  C6. The GeoJSON text the database returned for sample \<open>i\<close> decodes to an object,
  and the geometry of entry \<open>i\<close> is the value of the member \<open>coordinates\<close> of that
  object.
\<close>

theorem geometry_unmodified:
  assumes "process_linestring py pg data s0 = (Inr resp, s')"
    and "build_wkt py data = Inr wkt"
    and "st_geomfromtext pg wkt = Inr line"
    and "elevation_rows pg line = Inr fetched"
    and "i < length fetched"
  shows "\<exists>kvs. json_loads py (snd (fetched ! i)) = Inr (JObj kvs)
    \<and> map_of kvs ''coordinates'' = Some (geometry (values_list resp ! i))"
proof -
  have "\<exists>gj. json_loads py (snd (elevation_points fetched ! i)) = Inr gj
    \<and> getitem_key gj ''coordinates'' = Inr (geometry (values_list resp ! i))"
    using response_values(2) [OF assms] by (rule geospatial_point_Inr(3))
  with assms(5) obtain gj where
    l: "json_loads py (snd (fetched ! i)) = Inr gj"
    and g: "getitem_key gj ''coordinates'' = Inr (geometry (values_list resp ! i))"
    by (auto simp: elevation_points_def)
  from getitem_key_Inr [OF g] l show ?thesis
    by auto
qed

theorem geometry_unmodified_witness:
  \<open>process_linestring example_py example_pg example_data example_session
     = (Inr example_response, \<lparr>next_conn = 5, log = example_log\<rparr>)
   \<and> elevation_rows example_pg Track = Inr example_fetched
   \<and> snd (example_fetched ! 2) = ''{"type":"Point","coordinates":[10,0]}''
   \<and> json_loads example_py (snd (example_fetched ! 2))
       = Inr (JObj [(''type'', JStr ''Point''), (''coordinates'', JArr [JInt 10, JInt 0])])
   \<and> map_of [(''type'', JStr ''Point''), (''coordinates'', JArr [JInt 10, JInt 0 :: int json])]
        ''coordinates'' = Some (JArr [JInt 10, JInt 0])
   \<and> geometry (values_list example_response ! 2) = JArr [JInt 10, JInt 0]\<close>
proof -
  have i: "2 < length example_fetched"
    by (simp add: example_fetched_def)
  have l: \<open>json_loads example_py (snd (example_fetched ! 2))
       = Inr (JObj [(''type'', JStr ''Point''), (''coordinates'', JArr [JInt 10, JInt 0])])\<close>
    by (simp add: example_fetched_def example_py_def example_loads_def)
  from geometry_unmodified [OF example_run example_wkt example_line example_elevation i]
  have "geometry (values_list example_response ! 2) = JArr [JInt 10, JInt 0]"
    by (auto simp: l)
  with l show ?thesis
    by (simp add: example_run example_elevation) (simp add: example_fetched_def)
qed

text \<open>
  C9. When the line length is not negative the distances of the response do not
  decrease along the entries and the first one is 0. Rounding to a double is monotone
  and keeps 0.
\<close>

theorem distances_nondecreasing:
  assumes "process_linestring py pg data s0 = (Inr resp, s')"
    and "build_wkt py data = Inr wkt"
    and "st_geomfromtext pg wkt = Inr line"
    and "elevation_rows pg line = Inr fetched"
    and "0 \<le> st_length pg line"
    and "mono (rnd py)"
    and "rnd py 0 = 0"
  shows "values_list resp \<noteq> [] \<and> sorted (map distance (values_list resp))
    \<and> distance (values_list resp ! 0) = 0"
proof -
  let ?seg = "rnd py (st_length pg line / real (length fetched))"
  have len: "length (values_list resp) = length fetched"
    by (rule response_values(1) [OF assms(1-4)])
  have d: "distance (values_list resp ! i) = py_int (rnd py (?seg * real i))"
    if "i < length fetched" for i
    using response_values(2) [OF assms(1-4) that] by (rule geospatial_point_Inr(1))
  from assms(1) obtain wkt' line' fetched' where
    "build_wkt py data = Inr wkt'" "st_geomfromtext pg wkt' = Inr line'"
    "elevation_rows pg line' = Inr fetched'" "fetched' \<noteq> []"
    by (rule process_linestring_Inr)
  with assms(2-4) have ne: "fetched \<noteq> []"
    by simp
  have "0 \<le> st_length pg line / real (length fetched)"
    using assms(5) by simp
  then have "rnd py 0 \<le> ?seg"
    using assms(6) by (rule monoD [rotated])
  then have seg: "0 \<le> ?seg"
    by (simp add: assms(7))
  have "distance (values_list resp ! i) \<le> distance (values_list resp ! j)"
    if "i \<le> j" "j < length (values_list resp)" for i j
  proof -
    from that len have i: "i < length fetched" and j: "j < length fetched"
      by simp_all
    from that(1) seg have "?seg * real i \<le> ?seg * real j"
      by (simp add: mult_left_mono)
    then have "rnd py (?seg * real i) \<le> rnd py (?seg * real j)"
      using assms(6) by (rule monoD [rotated])
    then show ?thesis
      by (simp add: d [OF i] d [OF j] py_int_mono)
  qed
  then have "sorted (map distance (values_list resp))"
    by (simp add: sorted_iff_nth_mono)
  moreover from ne have "distance (values_list resp ! 0) = 0"
    using d [of 0] by (simp add: assms(7) py_int_def)
  ultimately show ?thesis
    using ne len by auto
qed

theorem distances_nondecreasing_witness:
  "process_linestring example_py example_pg example_data example_session
     = (Inr example_response, \<lparr>next_conn = 5, log = example_log\<rparr>)
   \<and> 0 \<le> st_length example_pg Track
   \<and> mono (rnd example_py) \<and> rnd example_py 0 = 0
   \<and> map distance (values_list example_response) = [0, 3, 6]
   \<and> sorted (map distance (values_list example_response))
   \<and> distance (values_list example_response ! 0) = 0"
proof -
  have n: "0 \<le> st_length example_pg Track"
    by (simp add: example_total)
  from distances_nondecreasing [OF example_run example_wkt example_line example_elevation n
      example_rnd_mono example_rnd_zero]
  show ?thesis
    by (simp add: example_run n example_rnd_mono example_rnd_zero)
      (simp add: example_response_def)
qed

text \<open>
  C2. When the elevation statement returns no row for the line of the request, the
  handler returns no response but raises: ZeroDivisionError, from the division by the
  number of samples, once the connections of the length and the elevation statement
  were accepted.
\<close>

theorem no_samples_raises:
  assumes "build_wkt py data = Inr wkt"
    and "st_geomfromtext pg wkt = Inr line"
    and "elevation_rows pg line = Inr []"
  shows "(\<exists>e. fst (process_linestring py pg data s0) = Inl e)
    \<and> (refuses pg (next_conn s0) = None \<and> refuses pg (Suc (next_conn s0)) = None
        \<longrightarrow> fst (process_linestring py pg data s0) = Inl ZeroDivisionError)"
proof -
  have a: "\<exists>e. fst (process_linestring py pg data s0) = Inl e"
  proof (cases "fst (process_linestring py pg data s0)")
    case (Inl e)
    then show ?thesis by simp
  next
    case (Inr resp)
    then have "process_linestring py pg data s0 = (Inr resp, snd (process_linestring py pg data s0))"
      by (simp add: prod_eq_iff)
    then obtain wkt' line' fetched' where
      "build_wkt py data = Inr wkt'" "st_geomfromtext pg wkt' = Inr line'"
      "elevation_rows pg line' = Inr fetched'" "fetched' \<noteq> []"
      by (rule process_linestring_Inr)
    with assms show ?thesis by simp
  qed
  have b: "fst (process_linestring py pg data s0) = Inl ZeroDivisionError"
    if r: "refuses pg (next_conn s0) = None" "refuses pg (Suc (next_conn s0)) = None"
  proof -
    have n: "next_conn (scoped Q_length s0) = Suc (next_conn s0)"
      by (simp add: scoped_def Let_def)
    from r(2) have r2: "refuses pg (next_conn (scoped Q_length s0)) = None"
      by (simp add: n)
    show ?thesis
      by (simp add: process_linestring_def assms(1) calculate_linestring_length_def
          fetch_elevation_data_def run_query_accepted [OF r(1) assms(2)]
          run_query_accepted [OF r2 assms(2)] length_sql_def assms(3)
          elevation_points_def segment_length_def)
  qed
  from a b show ?thesis by blast
qed


theorem no_samples_raises_witness:
  "build_wkt example_py example_data = Inr ''LINESTRING(0 0, 10 0)''
   \<and> st_geomfromtext example_pg_no_samples ''LINESTRING(0 0, 10 0)'' = Inr Track
   \<and> elevation_rows example_pg_no_samples Track = Inr []
   \<and> fst (process_linestring example_py example_pg_no_samples example_data example_session)
       = Inl ZeroDivisionError"
proof -
  have l: "st_geomfromtext example_pg_no_samples ''LINESTRING(0 0, 10 0)'' = Inr Track"
    and e: "elevation_rows example_pg_no_samples Track = Inr []"
    and r: "refuses example_pg_no_samples n = None" for n
    by (simp_all add: example_pg_no_samples_def example_pg_def)
  from no_samples_raises [OF example_wkt l e, of example_session]
  show ?thesis
    by (simp add: example_wkt l e r)
qed

subsection \<open>The WKT line\<close>

lemma format_coord_pair:
  "format_coord py (JArr (x # y # zs)) = Inr (py_format py x @ '' '' @ py_format py y)"
  by (simp add: format_coord_def getitem_index_def)

lemma join_Cons: "join sep (x # xs) = x @ concat (map (\<lambda>y. sep @ y) xs)"
  by (induction xs arbitrary: x) simp_all

lemma build_wkt_pairs:
  assumes "map_of kvs ''coords'' = Some (JArr (map (\<lambda>p. JArr [fst p, snd p]) pairs))"
  shows "build_wkt py (JObj kvs) =
    Inr (''LINESTRING(''
      @ join '', '' (map (\<lambda>p. py_format py (fst p) @ '' '' @ py_format py (snd p)) pairs)
      @ '')'')"
proof -
  have "map (format_coord py) (map (\<lambda>p. JArr [fst p, snd p]) pairs)
    = map Inr (map (\<lambda>p. py_format py (fst p) @ '' '' @ py_format py (snd p)) pairs)"
    by (simp add: format_coord_pair)
  then show ?thesis
    by (simp add: build_wkt_def getitem_key_def assms py_iter_def collect_all_Inr del: map_map)
qed

text \<open>
  C3. The body whose \<open>coords\<close> are \<open>[[0,0],[1,1]]\<close> gives the text
  \<open>LINESTRING(0 0, 1 1)\<close>. In general the text of a list of pairs is, between
  \<open>LINESTRING(\<close> and \<open>)\<close>, the first pair followed by every further pair after a comma
  and a space, each pair being its two formatted coordinates with a space between
  them; three pairs give \<open>LINESTRING(0 0, 1 1, -12 305)\<close>, no pair \<open>LINESTRING()\<close>.
\<close>

theorem wkt_of_coords:
  "build_wkt py (JObj [(''coords'', JArr [JArr [JInt 0, JInt 0], JArr [JInt 1, JInt 1]])])
     = Inr ''LINESTRING(0 0, 1 1)''
   \<and> build_wkt py
        (JObj [(''coords'',
                JArr [JArr [JInt 0, JInt 0], JArr [JInt 1, JInt 1], JArr [JInt (- 12), JInt 305]])])
     = Inr ''LINESTRING(0 0, 1 1, -12 305)''
   \<and> (map_of kvs ''coords'' = Some (JArr (map (\<lambda>p. JArr [fst p, snd p]) (p # ps)))
      \<longrightarrow> build_wkt py (JObj kvs) =
        Inr (''LINESTRING('' @ py_format py (fst p) @ '' '' @ py_format py (snd p)
          @ concat (map (\<lambda>q. '', '' @ py_format py (fst q) @ '' '' @ py_format py (snd q)) ps)
          @ '')''))
   \<and> (map_of kvs ''coords'' = Some (JArr [])
      \<longrightarrow> build_wkt py (JObj kvs) = Inr ''LINESTRING()'')"
proof -
  have 1: "build_wkt py (JObj [(''coords'', JArr [JArr [JInt 0, JInt 0], JArr [JInt 1, JInt 1]])])
     = Inr ''LINESTRING(0 0, 1 1)''"
    by (simp add: build_wkt_def getitem_key_def py_iter_def format_coord_pair py_format_def
        str_int_def digits.simps)
  have 2: "build_wkt py
        (JObj [(''coords'',
                JArr [JArr [JInt 0, JInt 0], JArr [JInt 1, JInt 1], JArr [JInt (- 12), JInt 305]])])
     = Inr ''LINESTRING(0 0, 1 1, -12 305)''"
    by (simp add: build_wkt_def getitem_key_def py_iter_def format_coord_pair py_format_def
        str_int_def digits.simps)
  have 3: "map_of kvs ''coords'' = Some (JArr (map (\<lambda>p. JArr [fst p, snd p]) (p # ps)))
      \<longrightarrow> build_wkt py (JObj kvs) =
        Inr (''LINESTRING('' @ py_format py (fst p) @ '' '' @ py_format py (snd p)
          @ concat (map (\<lambda>q. '', '' @ py_format py (fst q) @ '' '' @ py_format py (snd q)) ps)
          @ '')'')"
  proof
    assume "map_of kvs ''coords'' = Some (JArr (map (\<lambda>p. JArr [fst p, snd p]) (p # ps)))"
    from build_wkt_pairs [OF this, of py] show "build_wkt py (JObj kvs) =
        Inr (''LINESTRING('' @ py_format py (fst p) @ '' '' @ py_format py (snd p)
          @ concat (map (\<lambda>q. '', '' @ py_format py (fst q) @ '' '' @ py_format py (snd q)) ps)
          @ '')'')"
      by (simp add: join_Cons comp_def)
  qed
  have 4: "map_of kvs ''coords'' = Some (JArr [])
      \<longrightarrow> build_wkt py (JObj kvs) = Inr ''LINESTRING()''"
    using build_wkt_pairs [of kvs "[]" py] by simp
  show ?thesis
    by (intro conjI 1 2 3 4)
qed

theorem wkt_of_coords_witness:
  "map_of [(''name'', JStr ''GR 20''),
           (''coords'', JArr [JArr [JFloat 2, JInt (- 3)], JArr [JInt 10, JInt 0],
                             JArr [JInt 7, JFloat 5 :: int json]])] ''coords''
     = Some (JArr (map (\<lambda>p. JArr [fst p, snd p])
         ((JFloat 2, JInt (- 3)) # [(JInt 10, JInt 0), (JInt 7, JFloat 5)])))
   \<and> build_wkt example_py example_data_floats = Inr ''LINESTRING(2.0 -3, 10 0, 7 5.0)''"
proof -
  have g: "map_of [(''name'', JStr ''GR 20''),
           (''coords'', JArr [JArr [JFloat 2, JInt (- 3)], JArr [JInt 10, JInt 0],
                             JArr [JInt 7, JFloat 5 :: int json]])] ''coords''
     = Some (JArr (map (\<lambda>p. JArr [fst p, snd p])
         ((JFloat 2, JInt (- 3)) # [(JInt 10, JInt 0), (JInt 7, JFloat 5)])))"
    by simp
  from wkt_of_coords [of example_py _ "(JFloat 2, JInt (- 3))"
      "[(JInt 10, JInt 0), (JInt 7, JFloat 5)]", THEN conjunct2, THEN conjunct2, THEN conjunct1,
      THEN mp, OF g]
  have "build_wkt example_py example_data_floats = Inr ''LINESTRING(2.0 -3, 10 0, 7 5.0)''"
    by (simp add: example_data_floats_def py_format_def example_py_def str_int_def digits.simps)
  with g show ?thesis
    by (intro conjI)
qed

lemma format_coord_str:
  "format_coord py (JStr (x # y # zs)) = Inr [x, CHR '' '', y]"
  by (simp add: format_coord_def getitem_index_def py_format_def)

lemma same_first_two_format:
  assumes "same_first_two a b"
  shows "\<exists>part. format_coord py a = Inr part \<and> format_coord py b = Inr part"
  using assms
  by (induction a b rule: same_first_two.induct)
    (simp_all add: format_coord_pair format_coord_str)

lemma same_first_two_parts:
  assumes "list_all2 same_first_two cs1 cs2"
  shows "\<exists>parts. map (format_coord py) cs1 = map Inr parts
    \<and> map (format_coord py) cs2 = map Inr parts"
  using assms
proof (induction rule: list_all2_induct)
  case Nil
  then show ?case by simp
next
  case (Cons a cs1 b cs2)
  from same_first_two_format [OF Cons(1)] obtain part where
    p: "format_coord py a = Inr part" "format_coord py b = Inr part"
    by blast
  from Cons.IH obtain parts where
    ps: "map (format_coord py) cs1 = map Inr parts" "map (format_coord py) cs2 = map Inr parts"
    by blast
  have "map (format_coord py) (a # cs1) = map Inr (part # parts)
    \<and> map (format_coord py) (b # cs2) = map Inr (part # parts)"
    by (simp add: p ps)
  then show ?case ..
qed

text \<open>
  C10. Two bodies whose \<open>coords\<close> lists have entries of at least two members each and
  agree, entry by entry, on the first and on the second member give the same WKT text,
  and on the same database and session the handler does the same for both.
\<close>

theorem wkt_ignores_further_elements:
  assumes "getitem_key d1 ''coords'' = Inr (JArr cs1)"
    and "getitem_key d2 ''coords'' = Inr (JArr cs2)"
    and "list_all2 same_first_two cs1 cs2"
  shows "(\<exists>wkt. build_wkt py d1 = Inr wkt \<and> build_wkt py d2 = Inr wkt)
    \<and> process_linestring py pg d1 s = process_linestring py pg d2 s"
proof -
  from same_first_two_parts [OF assms(3)] obtain parts where
    ps: "map (format_coord py) cs1 = map Inr parts" "map (format_coord py) cs2 = map Inr parts"
    by blast
  have 1: "build_wkt py d1 = Inr (''LINESTRING('' @ join '', '' parts @ '')'')"
    by (simp add: build_wkt_def assms(1) py_iter_def ps collect_all_Inr)
  have 2: "build_wkt py d2 = Inr (''LINESTRING('' @ join '', '' parts @ '')'')"
    by (simp add: build_wkt_def assms(2) py_iter_def ps collect_all_Inr)
  from 1 2 show ?thesis
    by (simp add: process_linestring_def)
qed

theorem wkt_ignores_further_elements_witness:
  "getitem_key example_data ''coords'' = Inr (JArr [JArr [JInt 0, JInt 0], JArr [JInt 10, JInt 0]])
   \<and> getitem_key example_data_longer ''coords''
       = Inr (JArr [JArr [JInt 0, JInt 0, JInt 1480], JArr [JInt 10, JInt 0, JStr ''col'', JNull]])
   \<and> list_all2 same_first_two
       [JArr [JInt 0, JInt 0], JArr [JInt 10, JInt 0]]
       [JArr [JInt 0, JInt 0, JInt 1480], JArr [JInt 10, JInt 0, JStr ''col'', JNull]]
   \<and> build_wkt example_py example_data_longer = Inr ''LINESTRING(0 0, 10 0)''
   \<and> process_linestring example_py example_pg example_data_longer example_session
       = (Inr example_response, \<lparr>next_conn = 5, log = example_log\<rparr>)"
proof -
  have 1: "getitem_key example_data ''coords''
      = Inr (JArr [JArr [JInt 0, JInt 0], JArr [JInt 10, JInt 0]])"
    and 2: "getitem_key example_data_longer ''coords''
      = Inr (JArr [JArr [JInt 0, JInt 0, JInt 1480], JArr [JInt 10, JInt 0, JStr ''col'', JNull]])"
    by (simp_all add: example_data_def example_data_longer_def getitem_key_def)
  have 3: "list_all2 same_first_two
       [JArr [JInt 0, JInt 0], JArr [JInt 10, JInt 0]]
       [JArr [JInt 0, JInt 0, JInt 1480], JArr [JInt 10, JInt 0, JStr ''col'', JNull]]"
    by simp
  from wkt_ignores_further_elements [OF 1 2 3, of example_py example_pg example_session]
  show ?thesis
    by (simp add: 1 2 example_wkt example_run)
qed

subsection \<open>Hydrography\<close>

lemma collect_Inr_set: "collect rs = Inr ys \<Longrightarrow> y \<in> set ys \<Longrightarrow> Inr y \<in> set rs"
  by (drule collect_Inr_map) auto

lemma hydro_sql_Inr:
  assumes "hydro_sql pg line = Inr rows"
  shows "sorted (map (\<lambda>row. snd (snd row)) rows)"
    and "row \<in> set rows \<Longrightarrow>
      fst (snd row) \<in> {Some 1, Some 2, Some 3}
      \<and> (\<exists>geom d. (fst row, fst (snd row), geom) \<in> set (geo_cours_eau pg)
            \<and> st_crosses pg geom line
            \<and> d \<in> set (st_dump pg (st_intersection pg geom line))
            \<and> sql_int (float8 pg (st_linelocatepoint pg line d * st_length pg line))
                = Inr (snd (snd row)))"
proof -
  let ?rs = "[(case sql_int (float8 pg (st_linelocatepoint pg line d * st_length pg line)) of
            Inl e \<Rightarrow> Inl e
          | Inr dist_m \<Rightarrow> Inr (nomentiteh, classe, dist_m)).
         (nomentiteh, classe, geom) \<leftarrow> geo_cours_eau pg,
         st_crosses pg geom line,
         d \<leftarrow> st_dump pg (st_intersection pg geom line),
         classe \<in> {Some 1, Some 2, Some 3}]"
  from assms obtain rows0 where
    c: "collect ?rs = Inr rows0" and r: "rows = sort_key (\<lambda>row. snd (snd row)) rows0"
    unfolding hydro_sql_def by (auto split: sum.splits)
  show "sorted (map (\<lambda>row. snd (snd row)) rows)"
    by (simp add: r)
  assume "row \<in> set rows"
  then have "row \<in> set rows0"
    by (simp add: r)
  with c have "Inr row \<in> set ?rs"
    by (rule collect_Inr_set)
  then obtain nomentiteh classe geom d where
    m: "(nomentiteh, classe, geom) \<in> set (geo_cours_eau pg)" "st_crosses pg geom line"
       "d \<in> set (st_dump pg (st_intersection pg geom line))"
       "classe \<in> {Some 1, Some 2, Some 3}"
    and v: "(case sql_int (float8 pg (st_linelocatepoint pg line d * st_length pg line)) of
            Inl e \<Rightarrow> Inl e
          | Inr dist_m \<Rightarrow> Inr (nomentiteh, classe, dist_m)) = Inr row"
    by (auto split: if_splits)
  from v obtain dist_m where
    "sql_int (float8 pg (st_linelocatepoint pg line d * st_length pg line)) = Inr dist_m"
    "row = (nomentiteh, classe, dist_m)"
    by (cases "sql_int (float8 pg (st_linelocatepoint pg line d * st_length pg line))") auto
  with m show "fst (snd row) \<in> {Some 1, Some 2, Some 3}
      \<and> (\<exists>geom d. (fst row, fst (snd row), geom) \<in> set (geo_cours_eau pg)
            \<and> st_crosses pg geom line
            \<and> d \<in> set (st_dump pg (st_intersection pg geom line))
            \<and> sql_int (float8 pg (st_linelocatepoint pg line d * st_length pg line))
                = Inr (snd (snd row)))"
    by auto
qed

text \<open>
  C7. The rows of \<open>hydro_info\<close> are in ascending order of their distance along the
  line, and each of them is a crossing of the line with a river of class 1, 2 or 3:
  a point of the intersection of a river of the table that crosses the line, with the
  position of that point along the line, scaled by the line's length in double
  precision and cast to an integer, as its distance.
\<close>

theorem hydro_info_ascending:
  assumes "process_linestring py pg data s0 = (Inr resp, s')"
    and "build_wkt py data = Inr wkt"
    and "st_geomfromtext pg wkt = Inr line"
  shows "sorted (map (\<lambda>row. snd (snd row)) (hydro_info resp))
    \<and> (\<forall>row \<in> set (hydro_info resp).
          fst (snd row) \<in> {Some 1, Some 2, Some 3}
          \<and> (\<exists>geom d. (fst row, fst (snd row), geom) \<in> set (geo_cours_eau pg)
                \<and> st_crosses pg geom line
                \<and> d \<in> set (st_dump pg (st_intersection pg geom line))
                \<and> sql_int (float8 pg (st_linelocatepoint pg line d * st_length pg line))
                    = Inr (snd (snd row))))"
proof -
  from assms(1) obtain wkt' line' where
    "build_wkt py data = Inr wkt'" "st_geomfromtext pg wkt' = Inr line'"
    "hydro_sql pg line' = Inr (hydro_info resp)"
    by (rule process_linestring_Inr)
  with assms(2,3) have h: "hydro_sql pg line = Inr (hydro_info resp)"
    by simp
  from hydro_sql_Inr [OF h] show ?thesis
    by blast
qed

theorem hydro_info_ascending_witness:
  "process_linestring example_py example_pg example_data example_session
     = (Inr example_response, \<lparr>next_conn = 5, log = example_log\<rparr>)
   \<and> hydro_info example_response = [(Some ''le Cher'', Some 3, 2), (Some ''la Loire'', Some 1, 7)]
   \<and> sorted (map (\<lambda>row. snd (snd row)) (hydro_info example_response))
   \<and> fst (snd (Some ''la Loire'', Some 1, 7 :: int)) \<in> {Some 1, Some 2, Some (3 :: int)}"
proof -
  from hydro_info_ascending [OF example_run example_wkt example_line]
  have "sorted (map (\<lambda>row. snd (snd row)) (hydro_info example_response))"
    by blast
  then show ?thesis
    by (simp add: example_run) (simp add: example_response_def)
qed

subsection \<open>Land-cover percentages\<close>















subsection \<open>Connections\<close>

















end
